theory Spec2Isabelle
  imports Main
begin

section \<open>The mentor-student service: data model\<close>

text \<open>
  The service (\<^verbatim>\<open>src/mentor-student-api/index.js\<close> and its later revision
  \<^verbatim>\<open>src/unnamed/part_000\<close>) keeps two MongoDB collections through Mongoose models,
  \<^verbatim>\<open>Mentor\<close> and \<^verbatim>\<open>Student\<close>, and exposes them over HTTP routes. The two files
  have the same handlers; they differ in the body sent with a 500 response, in the
  explicit \<^verbatim>\<open>_id\<close> default of the schemas and in the connection fallback. The
  landing page at \<^verbatim>\<open>/\<close> reads and writes nothing and is left out, and so is
  \<^verbatim>\<open>generateId\<close> of \<^verbatim>\<open>part_000\<close>, which no handler calls.

  An \<^verbatim>\<open>ObjectId\<close> is a 12-byte value, modelled by the number it denotes. Both schemas
  share \<^verbatim>\<open>_id\<close> and \<^verbatim>\<open>name\<close>; \<^verbatim>\<open>name\<close> is optional since the schema does not
  require it. A reference field that is \<^verbatim>\<open>undefined\<close> or \<^verbatim>\<open>null\<close> is \<open>None\<close>: the
  handlers only test it for truthiness, and an ObjectId is always truthy. A mentor's
  \<^verbatim>\<open>students\<close> is an array or \<^verbatim>\<open>null\<close> (\<open>None\<close>): a mentor created with
  \<^verbatim>\<open>students: null\<close> in the request body is stored so, and the handlers call
  \<^verbatim>\<open>push\<close> on the field.
\<close>

type_synonym ObjectId = nat

record Doc =
  doc_id :: ObjectId
  name :: "string option"

record Mentor = Doc +
  students :: "ObjectId list option"

record Student = Doc +
  mentor :: "ObjectId option"
  previousMentor :: "ObjectId option"

text \<open>A collection is the list of its documents, in insertion order.\<close>

record Store =
  mentorColl :: "Mentor list"
  studentColl :: "Student list"

text \<open>
  What a handler sends: the status (200 unless \<^verbatim>\<open>res.status\<close> sets it) and the value
  given to \<^verbatim>\<open>res.send\<close>. \<open>BError\<close> is the body of the \<^verbatim>\<open>catch\<close> branch, labelled with
  the \<^verbatim>\<open>error\<close> text of \<^verbatim>\<open>part_000\<close>; \<open>BNull\<close> is \<^verbatim>\<open>res.send(null)\<close>.
\<close>

datatype Body =
    BMentor Mentor
  | BStudent Student
  | BMentors "Mentor list"
  | BStudents "Student list"
  | BMentorOrNull "Mentor option"
  | BText string
  | BError string
  | BNull

record Response =
  status :: nat
  body :: Body

section \<open>The store operations the handlers call\<close>

text \<open>
  The route parameters are strings. Mongoose casts the string to an ObjectId before it
  queries, and the query rejects (the \<^verbatim>\<open>await\<close> throws) when the cast fails. The cast is
  a parameter of the model; \<open>castObjectId\<close> is the cast of the hexadecimal form, 24
  hexadecimal digits.
\<close>

type_synonym cast = "string \<Rightarrow> ObjectId option"

definition hexDigit :: "char \<Rightarrow> nat option" where
  "hexDigit c =
     (let n = (of_char c :: nat) in
      if 48 \<le> n \<and> n \<le> 57 then Some (n - 48)
      else if 97 \<le> n \<and> n \<le> 102 then Some (n - 87)
      else if 65 \<le> n \<and> n \<le> 70 then Some (n - 55)
      else None)"

fun hexValue :: "nat \<Rightarrow> string \<Rightarrow> nat option" where
  "hexValue acc [] = Some acc"
| "hexValue acc (c # cs) =
     (case hexDigit c of None \<Rightarrow> None | Some d \<Rightarrow> hexValue (16 * acc + d) cs)"

definition castObjectId :: cast where
  "castObjectId s = (if length s = 24 then hexValue 0 s else None)"

text \<open>The document of a collection with a given \<^verbatim>\<open>_id\<close>, or \<^verbatim>\<open>null\<close>.\<close>

definition findOne :: "ObjectId \<Rightarrow> ('a Doc_scheme) list \<Rightarrow> ('a Doc_scheme) option" where
  "findOne i coll = find (\<lambda>d. doc_id d = i) coll"

text \<open>\<^verbatim>\<open>Model.findById(param)\<close>: \<open>Inl\<close> is the rejection, \<open>Inr None\<close> is \<^verbatim>\<open>null\<close>.\<close>

definition findById :: "cast \<Rightarrow> ('a Doc_scheme) list \<Rightarrow> string \<Rightarrow> string + ('a Doc_scheme) option" where
  "findById c coll param =
     (case c param of
        None \<Rightarrow> Inl ''CastError''
      | Some i \<Rightarrow> Inr (findOne i coll))"

text \<open>
  \<^verbatim>\<open>doc.save()\<close> of a document that was read from the store: the stored document with
  the same \<^verbatim>\<open>_id\<close> is updated.
\<close>

fun updateOne :: "('a Doc_scheme) \<Rightarrow> ('a Doc_scheme) list \<Rightarrow> ('a Doc_scheme) list" where
  "updateOne d [] = []"
| "updateOne d (x # xs) = (if doc_id x = doc_id d then d # xs else x # updateOne d xs)"

text \<open>
  \<^verbatim>\<open>doc.save()\<close> of a document made by \<^verbatim>\<open>new Model(...)\<close>: an insertion, which the
  store's unique index on \<^verbatim>\<open>_id\<close> rejects when the identifier is already taken.
\<close>

definition insertOne :: "('a Doc_scheme) \<Rightarrow> ('a Doc_scheme) list \<Rightarrow> string + ('a Doc_scheme) list" where
  "insertOne d coll =
     (if findOne (doc_id d) coll \<noteq> None then Inl ''E11000 duplicate key error''
      else Inr (coll @ [d]))"

text \<open>
  \<^verbatim>\<open>.populate('students')\<close> on an array: each identifier is replaced by the document
  it refers to, in the array's order; an identifier that refers to no document is
  dropped. A \<^verbatim>\<open>students\<close> that is \<^verbatim>\<open>null\<close> stays \<^verbatim>\<open>null\<close> (see
  \<open>getStudentsForMentor\<close>). \<^verbatim>\<open>.populate('previousMentor')\<close>: the document, or
  \<^verbatim>\<open>null\<close>.
\<close>

definition populate_students :: "Store \<Rightarrow> ObjectId list \<Rightarrow> Student list" where
  "populate_students st ids = List.map_filter (\<lambda>i. findOne i (studentColl st)) ids"

definition populate_previousMentor :: "Store \<Rightarrow> Student \<Rightarrow> Mentor option" where
  "populate_previousMentor st s =
     (case previousMentor s of None \<Rightarrow> None | Some p \<Rightarrow> findOne p (mentorColl st))"

section \<open>Creating documents\<close>

text \<open>
  \<^verbatim>\<open>req.body\<close>, restricted to the paths of the two schemas (Mongoose ignores every
  other key). Identifiers arrive as strings. \<^verbatim>\<open>_id\<close> is absent (\<open>None\<close>) or given. For
  \<^verbatim>\<open>name\<close>, \<^verbatim>\<open>mentor\<close> and \<^verbatim>\<open>previousMentor\<close>, \<open>None\<close> is absent or \<^verbatim>\<open>null\<close>: the
  document's field is \<open>None\<close> in both cases. For the array path \<^verbatim>\<open>students\<close> the two
  differ: an absent path takes the schema's default, the empty array, and \<^verbatim>\<open>null\<close>
  is stored as \<^verbatim>\<open>null\<close>.
\<close>

datatype 'a path = Absent | Null | Given 'a

record ReqBody =
  body_id :: "string option"
  body_name :: "string option"
  body_students :: "string list path"
  body_mentor :: "string option"
  body_previousMentor :: "string option"

fun castAll :: "cast \<Rightarrow> string list \<Rightarrow> ObjectId list option" where
  "castAll c [] = Some []"
| "castAll c (s # ss) =
     (case c s of
        None \<Rightarrow> None
      | Some i \<Rightarrow> (case castAll c ss of None \<Rightarrow> None | Some is \<Rightarrow> Some (i # is)))"

definition castOptional :: "cast \<Rightarrow> string option \<Rightarrow> string + ObjectId option" where
  "castOptional c v =
     (case v of
        None \<Rightarrow> Inr None
      | Some s \<Rightarrow> (case c s of None \<Rightarrow> Inl ''ValidationError'' | Some i \<Rightarrow> Inr (Some i)))"

text \<open>
  The \<^verbatim>\<open>_id\<close> of a new document. A body that gives \<^verbatim>\<open>_id\<close> sets it, and the schema's
  default is not called. Otherwise the default is called, and its outcome is a
  parameter of the model, \<open>dflt\<close>: \<open>Inr i\<close> when it returns the ObjectId \<open>i\<close>, \<open>Inl e\<close>
  when it throws. The schemas of \<^verbatim>\<open>index.js\<close> declare no \<^verbatim>\<open>_id\<close> and Mongoose
  generates one. The schemas of \<^verbatim>\<open>part_000\<close> declare
  \<^verbatim>\<open>default: mongoose.Types.ObjectId\<close>, which Mongoose calls without \<^verbatim>\<open>new\<close>: this
  returns an ObjectId where \<^verbatim>\<open>ObjectId\<close> is a plain function, and throws where it is a
  class (Mongoose 7 and later), so that the creation is answered 500.
\<close>

definition newId :: "cast \<Rightarrow> string + ObjectId \<Rightarrow> ReqBody \<Rightarrow> string + ObjectId" where
  "newId c dflt b =
     (case body_id b of
        Some s \<Rightarrow> (case c s of None \<Rightarrow> Inl ''ValidationError'' | Some i \<Rightarrow> Inr i)
      | None \<Rightarrow> dflt)"

text \<open>
  \<^verbatim>\<open>new Mentor(req.body)\<close> and \<^verbatim>\<open>new Student(req.body)\<close>, up to the point where
  \<^verbatim>\<open>save\<close> would write. Every schema path the body gives is taken from the body; an
  absent array path defaults to the empty array, an absent reference path stays unset.
  A value that does not cast makes \<^verbatim>\<open>save\<close> reject.
\<close>

definition newMentor :: "cast \<Rightarrow> string + ObjectId \<Rightarrow> ReqBody \<Rightarrow> string + Mentor" where
  "newMentor c dflt b =
     (case newId c dflt b of
        Inl e \<Rightarrow> Inl e
      | Inr i \<Rightarrow>
          (case body_students b of
             Absent \<Rightarrow> Inr \<lparr>doc_id = i, name = body_name b, students = Some []\<rparr>
           | Null \<Rightarrow> Inr \<lparr>doc_id = i, name = body_name b, students = None\<rparr>
           | Given ss \<Rightarrow>
               (case castAll c ss of
                  None \<Rightarrow> Inl ''ValidationError''
                | Some ids \<Rightarrow> Inr \<lparr>doc_id = i, name = body_name b, students = Some ids\<rparr>)))"

definition newStudent :: "cast \<Rightarrow> string + ObjectId \<Rightarrow> ReqBody \<Rightarrow> string + Student" where
  "newStudent c dflt b =
     (case newId c dflt b of
        Inl e \<Rightarrow> Inl e
      | Inr i \<Rightarrow>
          (case castOptional c (body_mentor b) of
             Inl e \<Rightarrow> Inl e
           | Inr m \<Rightarrow>
               (case castOptional c (body_previousMentor b) of
                  Inl e \<Rightarrow> Inl e
                | Inr p \<Rightarrow>
                    Inr \<lparr>doc_id = i, name = body_name b, mentor = m, previousMentor = p\<rparr>)))"

section \<open>The route handlers\<close>

text \<open>
  Each handler takes the store and the request and returns the store after the request
  with the response. The \<^verbatim>\<open>catch\<close> branch of a handler is reached when a store
  operation rejects or a statement of the \<^verbatim>\<open>try\<close> block throws; what was saved before
  stays saved.
\<close>

definition getMentors :: "Store \<Rightarrow> Store \<times> Response" where
  "getMentors st = (st, \<lparr>status = 200, body = BMentors (mentorColl st)\<rparr>)"

definition getStudents :: "Store \<Rightarrow> Store \<times> Response" where
  "getStudents st = (st, \<lparr>status = 200, body = BStudents (studentColl st)\<rparr>)"

definition createMentor :: "cast \<Rightarrow> string + ObjectId \<Rightarrow> Store \<Rightarrow> ReqBody \<Rightarrow> Store \<times> Response" where
  "createMentor c dflt st b =
     (case newMentor c dflt b of
        Inl e \<Rightarrow> (st, \<lparr>status = 500, body = BError ''Error creating mentor''\<rparr>)
      | Inr m \<Rightarrow>
          (case insertOne m (mentorColl st) of
             Inl e \<Rightarrow> (st, \<lparr>status = 500, body = BError ''Error creating mentor''\<rparr>)
           | Inr coll \<Rightarrow> (st\<lparr>mentorColl := coll\<rparr>, \<lparr>status = 201, body = BMentor m\<rparr>)))"

definition createStudent :: "cast \<Rightarrow> string + ObjectId \<Rightarrow> Store \<Rightarrow> ReqBody \<Rightarrow> Store \<times> Response" where
  "createStudent c dflt st b =
     (case newStudent c dflt b of
        Inl e \<Rightarrow> (st, \<lparr>status = 500, body = BError ''Error creating student''\<rparr>)
      | Inr s \<Rightarrow>
          (case insertOne s (studentColl st) of
             Inl e \<Rightarrow> (st, \<lparr>status = 500, body = BError ''Error creating student''\<rparr>)
           | Inr coll \<Rightarrow> (st\<lparr>studentColl := coll\<rparr>, \<lparr>status = 201, body = BStudent s\<rparr>)))"

text \<open>
  \<^verbatim>\<open>POST /mentors/:mentorId/students/:studentId\<close>. The student is saved before
  \<^verbatim>\<open>mentor.students.push\<close> runs; on a \<^verbatim>\<open>students\<close> that is \<^verbatim>\<open>null\<close> the call throws
  and the \<^verbatim>\<open>catch\<close> branch answers.
\<close>

definition assignStudentToMentor :: "cast \<Rightarrow> Store \<Rightarrow> string \<Rightarrow> string \<Rightarrow> Store \<times> Response" where
  "assignStudentToMentor c st mentorId studentId =
     (case findById c (mentorColl st) mentorId of
        Inl e \<Rightarrow> (st, \<lparr>status = 500, body = BError ''Error assigning student to mentor''\<rparr>)
      | Inr mentor0 \<Rightarrow>
     (case findById c (studentColl st) studentId of
        Inl e \<Rightarrow> (st, \<lparr>status = 500, body = BError ''Error assigning student to mentor''\<rparr>)
      | Inr student0 \<Rightarrow>
     (case (mentor0, student0) of
        (Some m, Some s) \<Rightarrow>
          if mentor s \<noteq> None
          then (st, \<lparr>status = 400, body = BText ''Student already has a mentor''\<rparr>)
          else
            let s' = s\<lparr>mentor := Some (doc_id m)\<rparr>;
                st1 = st\<lparr>studentColl := updateOne s' (studentColl st)\<rparr>
            in (case students m of
                  None \<Rightarrow>
                    (st1, \<lparr>status = 500, body = BError ''Error assigning student to mentor''\<rparr>)
                | Some ids \<Rightarrow>
                    let m' = m\<lparr>students := Some (ids @ [doc_id s'])\<rparr>;
                        st2 = st1\<lparr>mentorColl := updateOne m' (mentorColl st1)\<rparr>
                    in (st2, \<lparr>status = 200, body = BMentor m'\<rparr>))
      | _ \<Rightarrow> (st, \<lparr>status = 404, body = BText ''Mentor or Student not found''\<rparr>))))"

text \<open>
  \<^verbatim>\<open>PUT /students/:studentId/mentor/:mentorId\<close>, with the same order: the student is
  saved, then \<^verbatim>\<open>newMentor.students.push\<close> runs.
\<close>

definition reassignStudentMentor :: "cast \<Rightarrow> Store \<Rightarrow> string \<Rightarrow> string \<Rightarrow> Store \<times> Response" where
  "reassignStudentMentor c st studentId mentorId =
     (case findById c (studentColl st) studentId of
        Inl e \<Rightarrow> (st, \<lparr>status = 500, body = BError ''Error updating student mentor''\<rparr>)
      | Inr student0 \<Rightarrow>
     (case findById c (mentorColl st) mentorId of
        Inl e \<Rightarrow> (st, \<lparr>status = 500, body = BError ''Error updating student mentor''\<rparr>)
      | Inr mentor0 \<Rightarrow>
     (case (student0, mentor0) of
        (Some s, Some m) \<Rightarrow>
          let s1 = (if mentor s \<noteq> None then s\<lparr>previousMentor := mentor s\<rparr> else s);
              s' = s1\<lparr>mentor := Some (doc_id m)\<rparr>;
              st1 = st\<lparr>studentColl := updateOne s' (studentColl st)\<rparr>
          in (case students m of
                None \<Rightarrow>
                  (st1, \<lparr>status = 500, body = BError ''Error updating student mentor''\<rparr>)
              | Some ids \<Rightarrow>
                  let m' = m\<lparr>students := Some (ids @ [doc_id s'])\<rparr>;
                      st2 = st1\<lparr>mentorColl := updateOne m' (mentorColl st1)\<rparr>
                  in (st2, \<lparr>status = 200, body = BStudent s'\<rparr>))
      | _ \<Rightarrow> (st, \<lparr>status = 404, body = BText ''Student or Mentor not found''\<rparr>))))"

text \<open>
  \<^verbatim>\<open>GET /mentors/:mentorId/students\<close>: the populated \<^verbatim>\<open>students\<close> is sent, an array
  of documents, or \<^verbatim>\<open>null\<close> when the field is \<^verbatim>\<open>null\<close>.
\<close>

definition getStudentsForMentor :: "cast \<Rightarrow> Store \<Rightarrow> string \<Rightarrow> Store \<times> Response" where
  "getStudentsForMentor c st mentorId =
     (case findById c (mentorColl st) mentorId of
        Inl e \<Rightarrow> (st, \<lparr>status = 500, body = BError ''Error fetching students for mentor''\<rparr>)
      | Inr None \<Rightarrow> (st, \<lparr>status = 404, body = BText ''Mentor not found''\<rparr>)
      | Inr (Some m) \<Rightarrow>
          (case students m of
             None \<Rightarrow> (st, \<lparr>status = 200, body = BNull\<rparr>)
           | Some ids \<Rightarrow> (st, \<lparr>status = 200, body = BStudents (populate_students st ids)\<rparr>)))"

text \<open>\<^verbatim>\<open>GET /students/:studentId/previous-mentor\<close>\<close>

definition getPreviousMentor :: "cast \<Rightarrow> Store \<Rightarrow> string \<Rightarrow> Store \<times> Response" where
  "getPreviousMentor c st studentId =
     (case findById c (studentColl st) studentId of
        Inl e \<Rightarrow> (st, \<lparr>status = 500, body = BError ''Error fetching previous mentor for student''\<rparr>)
      | Inr None \<Rightarrow> (st, \<lparr>status = 404, body = BText ''Student not found''\<rparr>)
      | Inr (Some s) \<Rightarrow> (st, \<lparr>status = 200, body = BMentorOrNull (populate_previousMentor st s)\<rparr>))"

section \<open>Resolution, roster consistency, request sequences\<close>

text \<open>
  A route parameter resolves in a collection when \<^verbatim>\<open>findById\<close> returns a document:
  neither a rejection nor \<^verbatim>\<open>null\<close>.
\<close>

definition resolves :: "cast \<Rightarrow> ('a Doc_scheme) list \<Rightarrow> string \<Rightarrow> bool" where
  "resolves c coll param = (case findById c coll param of Inr (Some d) \<Rightarrow> True | _ \<Rightarrow> False)"

text \<open>
  The consistency the data model asks of a mentor's roster: every identifier in
  \<^verbatim>\<open>students\<close> refers to a student whose \<^verbatim>\<open>mentor\<close> is this mentor.
\<close>

definition roster_consistent :: "Store \<Rightarrow> ObjectId \<Rightarrow> bool" where
  "roster_consistent st mi =
     (case findOne mi (mentorColl st) of
        None \<Rightarrow> True
      | Some m \<Rightarrow>
          list_all (\<lambda>si. case findOne si (studentColl st) of
                            None \<Rightarrow> False
                          | Some s \<Rightarrow> mentor s = Some mi)
            (case students m of None \<Rightarrow> [] | Some ids \<Rightarrow> ids))"

subsection \<open>Requests in sequence\<close>

text \<open>
  The routes of the application, one constructor each. A creation request carries the
  outcome of the \<^verbatim>\<open>_id\<close> default for it.
\<close>

datatype Request =
    GetMentors
  | GetStudents
  | CreateMentor "string + ObjectId" ReqBody
  | CreateStudent "string + ObjectId" ReqBody
  | AssignStudent string string
  | ReassignStudent string string
  | GetStudentsForMentor string
  | GetPreviousMentor string

fun handle :: "cast \<Rightarrow> Store \<Rightarrow> Request \<Rightarrow> Store \<times> Response" where
  "handle c st GetMentors = getMentors st"
| "handle c st GetStudents = getStudents st"
| "handle c st (CreateMentor dflt b) = createMentor c dflt st b"
| "handle c st (CreateStudent dflt b) = createStudent c dflt st b"
| "handle c st (AssignStudent mentorId studentId) = assignStudentToMentor c st mentorId studentId"
| "handle c st (ReassignStudent studentId mentorId) = reassignStudentMentor c st studentId mentorId"
| "handle c st (GetStudentsForMentor mentorId) = getStudentsForMentor c st mentorId"
| "handle c st (GetPreviousMentor studentId) = getPreviousMentor c st studentId"

fun run :: "cast \<Rightarrow> Store \<Rightarrow> Request list \<Rightarrow> Store" where
  "run c st [] = st"
| "run c st (rq # rqs) = run c (fst (handle c st rq)) rqs"

subsection \<open>The example of the specification\<close>

definition M1 :: string where "M1 = ''000000000000000000000011''"
definition M2 :: string where "M2 = ''000000000000000000000012''"
definition M3 :: string where "M3 = ''000000000000000000000013''"
definition S1 :: string where "S1 = ''0000000000000000000000a1''"
definition S2 :: string where "S2 = ''0000000000000000000000a2''"
definition S3 :: string where "S3 = ''0000000000000000000000a3''"
definition M4 :: string where "M4 = ''000000000000000000000014''"

definition ada :: Mentor where "ada = \<lparr>doc_id = 17, name = Some ''Ada'', students = Some []\<rparr>"
definition grace :: Mentor where "grace = \<lparr>doc_id = 18, name = Some ''Grace'', students = Some []\<rparr>"
definition edsger :: Mentor where "edsger = \<lparr>doc_id = 19, name = Some ''Edsger'', students = Some []\<rparr>"
definition lin :: Student where
  "lin = \<lparr>doc_id = 161, name = Some ''Lin'', mentor = None, previousMentor = None\<rparr>"
definition kim :: Student where
  "kim = \<lparr>doc_id = 162, name = Some ''Kim'', mentor = None, previousMentor = None\<rparr>"

definition store0 :: Store where
  "store0 = \<lparr>mentorColl = [ada, grace, edsger], studentColl = [lin, kim]\<rparr>"

text \<open>The example store once Lin is assigned to Ada.\<close>

definition store1 :: Store where
  "store1 = \<lparr>mentorColl = [ada\<lparr>students := Some [161]\<rparr>, grace, edsger],
             studentColl = [lin\<lparr>mentor := Some 17\<rparr>, kim]\<rparr>"





text \<open>A sequence of requests in which no reassignment is for the student \<open>si\<close>.\<close>

definition no_reassignment_of :: "cast \<Rightarrow> ObjectId \<Rightarrow> Request list \<Rightarrow> bool" where
  "no_reassignment_of c si rqs =
     list_all (\<lambda>rq. case rq of ReassignStudent studentId mentorId \<Rightarrow> c studentId \<noteq> Some si
                              | _ \<Rightarrow> True) rqs"


definition pat_previous :: ReqBody where
  "pat_previous = \<lparr>body_id = Some S3, body_name = Some ''Pat'', body_students = Absent,
                   body_mentor = None, body_previousMentor = Some M2\<rparr>"

definition pat_plain :: ReqBody where
  "pat_plain = \<lparr>body_id = Some S3, body_name = Some ''Pat'', body_students = Absent,
                body_mentor = None, body_previousMentor = None\<rparr>"


section \<open>Facts about the store operations\<close>

lemma findOne_doc_id: "findOne i coll = Some d \<Longrightarrow> doc_id d = i"
  unfolding findOne_def by (induction coll) (auto split: if_splits)

lemma findOne_updateOne:
  "findOne i (updateOne d coll) =
     (if i = doc_id d \<and> findOne i coll \<noteq> None then Some d else findOne i coll)"
  unfolding findOne_def by (induction coll) auto

lemma updateOne_same: "findOne (doc_id d) coll = Some d \<Longrightarrow> updateOne d coll = coll"
  unfolding findOne_def by (induction coll) (auto split: if_splits)

lemma updateOne_ids: "map doc_id (updateOne d coll) = map doc_id coll"
  by (induction coll) auto

lemma updateOne_others:
  "filter (\<lambda>x. doc_id x \<noteq> doc_id d) (updateOne d coll) = filter (\<lambda>x. doc_id x \<noteq> doc_id d) coll"
  by (induction coll) auto

lemma findOne_append:
  "findOne i (coll @ [d]) =
     (case findOne i coll of Some x \<Rightarrow> Some x | None \<Rightarrow> if doc_id d = i then Some d else None)"
  unfolding findOne_def by (induction coll) auto


lemma cast_examples:
  "castObjectId M1 = Some 17" "castObjectId M2 = Some 18" "castObjectId M3 = Some 19"
  "castObjectId S1 = Some 161" "castObjectId S2 = Some 162"
  "castObjectId ''abc'' = None" "castObjectId M4 = Some 20" "castObjectId S3 = Some 163"
  by (simp_all add: castObjectId_def hexDigit_def M1_def M2_def M3_def S1_def S2_def M4_def S3_def)

lemma store0_lookups:
  "findOne 17 (mentorColl store0) = Some ada" "findOne 18 (mentorColl store0) = Some grace"
  "findOne 19 (mentorColl store0) = Some edsger"
  "findOne 161 (studentColl store0) = Some lin" "findOne 162 (studentColl store0) = Some kim"
  by (simp_all add: findOne_def store0_def ada_def grace_def edsger_def lin_def kim_def)

lemma store1_lookups:
  "findOne 17 (mentorColl store1) = Some (ada\<lparr>students := Some [161]\<rparr>)"
  "findOne 18 (mentorColl store1) = Some grace"
  "findOne 19 (mentorColl store1) = Some edsger"
  "findOne 161 (studentColl store1) = Some (lin\<lparr>mentor := Some 17\<rparr>)"
  "findOne 162 (studentColl store1) = Some kim"
  by (simp_all add: findOne_def store1_def ada_def grace_def edsger_def lin_def kim_def)




section \<open>The two assignment handlers on parameters that resolve\<close>

text \<open>
  The store and the response in one equation each. The mentor document written is the
  one with the identifier pushed, or the document as read when \<^verbatim>\<open>push\<close> threw.
\<close>

lemma assign_ok:
  assumes "c mentorId = Some mi" "findOne mi (mentorColl st) = Some m"
    and "c studentId = Some si" "findOne si (studentColl st) = Some s"
    and "mentor s = None"
  shows "assignStudentToMentor c st mentorId studentId =
     (st\<lparr>studentColl := updateOne (s\<lparr>mentor := Some mi\<rparr>) (studentColl st),
         mentorColl := updateOne (case students m of None \<Rightarrow> m
                                  | Some ids \<Rightarrow> m\<lparr>students := Some (ids @ [si])\<rparr>) (mentorColl st)\<rparr>,
      case students m of
        None \<Rightarrow> \<lparr>status = 500, body = BError ''Error assigning student to mentor''\<rparr>
      | Some ids \<Rightarrow> \<lparr>status = 200, body = BMentor (m\<lparr>students := Some (ids @ [si])\<rparr>)\<rparr>)"
proof -
  have ids: "doc_id m = mi" "doc_id s = si"
    using assms(2,4) by (simp_all add: findOne_doc_id)
  have same: "updateOne m (mentorColl st) = mentorColl st"
    using assms(2) ids(1) by (simp add: updateOne_same)
  show ?thesis
    using assms ids same
    by (cases "students m") (simp_all add: assignStudentToMentor_def findById_def Let_def)
qed

lemma assign_already:
  assumes "c mentorId = Some mi" "findOne mi (mentorColl st) = Some m"
    and "c studentId = Some si" "findOne si (studentColl st) = Some s"
    and "mentor s \<noteq> None"
  shows "assignStudentToMentor c st mentorId studentId =
     (st, \<lparr>status = 400, body = BText ''Student already has a mentor''\<rparr>)"
  using assms by (simp add: assignStudentToMentor_def findById_def)

lemma reassign_ok:
  assumes "c studentId = Some si" "findOne si (studentColl st) = Some s"
    and "c mentorId = Some mi" "findOne mi (mentorColl st) = Some m"
  shows "reassignStudentMentor c st studentId mentorId =
     (st\<lparr>studentColl := updateOne (s\<lparr>previousMentor := (if mentor s \<noteq> None then mentor s else previousMentor s),
          mentor := Some mi\<rparr>) (studentColl st),
         mentorColl := updateOne (case students m of None \<Rightarrow> m
                                  | Some ids \<Rightarrow> m\<lparr>students := Some (ids @ [si])\<rparr>) (mentorColl st)\<rparr>,
      case students m of
        None \<Rightarrow> \<lparr>status = 500, body = BError ''Error updating student mentor''\<rparr>
      | Some ids \<Rightarrow>
          \<lparr>status = 200, body = BStudent (s\<lparr>previousMentor :=
               (if mentor s \<noteq> None then mentor s else previousMentor s), mentor := Some mi\<rparr>)\<rparr>)"
proof -
  have ids: "doc_id m = mi" "doc_id s = si"
    using assms(2,4) by (simp_all add: findOne_doc_id)
  have same: "updateOne m (mentorColl st) = mentorColl st"
    using assms(4) ids(1) by (simp add: updateOne_same)
  show ?thesis
    using assms ids same
    by (cases "students m") (simp_all add: reassignStudentMentor_def findById_def Let_def)
qed

lemma pushed_doc_id:
  "doc_id (case students m of None \<Rightarrow> m | Some ids \<Rightarrow> m\<lparr>students := Some (ids @ [si])\<rparr>) = doc_id m"
  by (cases "students m") simp_all

section \<open>Assignment\<close>




text \<open>
  C2. A student whose \<^verbatim>\<open>mentor\<close> is set cannot be assigned: with a mentor id that
  resolves, \<open>assignStudentToMentor\<close> answers 400 and returns the store as it was. So of
  two calls for the same student, with mentor ids that resolve, the second answers 400
  and changes nothing, whatever the first did.
\<close>

theorem assign_rejects_assigned_student:
  assumes "c studentId = Some si" and "findOne si (studentColl st) = Some s"
    and "c mentorId = Some mi" and "findOne mi (mentorColl st) = Some m"
    and "c mentorId' = Some mi'" and "findOne mi' (mentorColl st) = Some m'"
    and "assignStudentToMentor c st mentorId studentId = (st1, r1)"
    and "assignStudentToMentor c st1 mentorId' studentId = (st2, r2)"
  shows "(mentor s \<noteq> None \<longrightarrow>
            st1 = st \<and> r1 = \<lparr>status = 400, body = BText ''Student already has a mentor''\<rparr>)
         \<and> st2 = st1 \<and> r2 = \<lparr>status = 400, body = BText ''Student already has a mentor''\<rparr>"
proof (cases "mentor s")
  case None
  define s1 where "s1 = s\<lparr>mentor := Some mi\<rparr>"
  define w where "w = (case students m of None \<Rightarrow> m | Some ids \<Rightarrow> m\<lparr>students := Some (ids @ [si])\<rparr>)"
  have st1: "st1 = st\<lparr>studentColl := updateOne s1 (studentColl st),
                      mentorColl := updateOne w (mentorColl st)\<rparr>"
    using assign_ok[OF assms(3,4,1,2) None] assms(7) by (simp add: s1_def w_def)
  have ids: "doc_id s1 = si" "doc_id w = mi"
    using assms(2,4) by (simp_all add: findOne_doc_id s1_def w_def pushed_doc_id)
  have f1: "findOne si (studentColl st1) = Some s1"
    using st1 ids assms(2) by (simp add: findOne_updateOne)
  have m1: "findOne mi' (mentorColl st1) = Some (if mi' = mi then w else m')"
    using st1 ids assms(4,6) by (simp add: findOne_updateOne)
  have "mentor s1 \<noteq> None" by (simp add: s1_def)
  from assign_already[OF assms(5) m1 assms(1) f1 this] assms(8) None
  show ?thesis by simp
next
  case (Some a)
  then have set: "mentor s \<noteq> None" by simp
  have first: "st1 = st" "r1 = \<lparr>status = 400, body = BText ''Student already has a mentor''\<rparr>"
    using assign_already[OF assms(3,4,1,2) set] assms(7) by simp_all
  have "assignStudentToMentor c st mentorId' studentId =
          (st, \<lparr>status = 400, body = BText ''Student already has a mentor''\<rparr>)"
    by (rule assign_already[OF assms(5,6,1,2) set])
  with first assms(8) show ?thesis by simp
qed

theorem assign_rejects_assigned_student_witness:
  "castObjectId S1 = Some 161 \<and> findOne 161 (studentColl store0) = Some lin
   \<and> castObjectId M1 = Some 17 \<and> findOne 17 (mentorColl store0) = Some ada
   \<and> castObjectId M2 = Some 18 \<and> findOne 18 (mentorColl store0) = Some grace
   \<and> status (snd (assignStudentToMentor castObjectId store0 M1 S1)) = 200
   \<and> snd (assignStudentToMentor castObjectId
            (fst (assignStudentToMentor castObjectId store0 M1 S1)) M2 S1)
       = \<lparr>status = 400, body = BText ''Student already has a mentor''\<rparr>
   \<and> fst (assignStudentToMentor castObjectId
            (fst (assignStudentToMentor castObjectId store0 M1 S1)) M2 S1)
       = fst (assignStudentToMentor castObjectId store0 M1 S1)"
proof -
  have h1: "castObjectId S1 = Some 161" and h3: "castObjectId M1 = Some 17"
    and h5: "castObjectId M2 = Some 18"
    by (simp_all add: cast_examples)
  have h2: "findOne 161 (studentColl store0) = Some lin"
    and h4: "findOne 17 (mentorColl store0) = Some ada"
    and h6: "findOne 18 (mentorColl store0) = Some grace"
    by (simp_all add: store0_lookups)
  have first: "status (snd (assignStudentToMentor castObjectId store0 M1 S1)) = 200"
    using assign_ok[OF h3 h4 h1 h2] by (simp add: lin_def ada_def)
  show ?thesis
    using assign_rejects_assigned_student[OF h1 h2 h3 h4 h5 h6
        prod.collapse[symmetric] prod.collapse[symmetric]] h1 h2 h3 h4 h5 h6 first
    by simp
qed

section \<open>Reassignment\<close>




section \<open>Rosters only grow\<close>

lemma updateOne_roster:
  assumes "findOne mi coll = Some m" and "students m = Some ids"
    and "findOne (doc_id m0) coll = Some m0"
  shows "\<exists>m' ids'. findOne mi (updateOne (case students m0 of None \<Rightarrow> m0
                        | Some xs \<Rightarrow> m0\<lparr>students := Some (xs @ [j])\<rparr>) coll) = Some m'
           \<and> students m' = Some ids' \<and> set ids \<subseteq> set ids'"
  using assms by (cases "students m0") (auto simp: findOne_updateOne)

lemma assign_roster:
  assumes "findOne mi (mentorColl st) = Some m" and "students m = Some ids"
  shows "\<exists>m' ids'. findOne mi (mentorColl (fst (assignStudentToMentor c st mentorId studentId))) = Some m'
           \<and> students m' = Some ids' \<and> set ids \<subseteq> set ids'"
proof (cases "\<exists>i m0 j s0. c mentorId = Some i \<and> findOne i (mentorColl st) = Some m0
                \<and> c studentId = Some j \<and> findOne j (studentColl st) = Some s0 \<and> mentor s0 = None")
  case True
  then obtain i m0 j s0 where h: "c mentorId = Some i" "findOne i (mentorColl st) = Some m0"
      "c studentId = Some j" "findOne j (studentColl st) = Some s0" "mentor s0 = None"
    by blast
  have "findOne (doc_id m0) (mentorColl st) = Some m0"
    using h(2) findOne_doc_id[OF h(2)] by simp
  from updateOne_roster[OF assms this] show ?thesis
    by (simp add: assign_ok[OF h])
next
  case False
  then have "fst (assignStudentToMentor c st mentorId studentId) = st"
    by (auto simp: assignStudentToMentor_def findById_def Let_def split: sum.splits option.splits)
  with assms show ?thesis by simp
qed

lemma reassign_roster:
  assumes "findOne mi (mentorColl st) = Some m" and "students m = Some ids"
  shows "\<exists>m' ids'. findOne mi (mentorColl (fst (reassignStudentMentor c st studentId mentorId))) = Some m'
           \<and> students m' = Some ids' \<and> set ids \<subseteq> set ids'"
proof (cases "\<exists>j s0 i m0. c studentId = Some j \<and> findOne j (studentColl st) = Some s0
                \<and> c mentorId = Some i \<and> findOne i (mentorColl st) = Some m0")
  case True
  then obtain j s0 i m0 where h: "c studentId = Some j" "findOne j (studentColl st) = Some s0"
      "c mentorId = Some i" "findOne i (mentorColl st) = Some m0"
    by blast
  have "findOne (doc_id m0) (mentorColl st) = Some m0"
    using h(4) findOne_doc_id[OF h(4)] by simp
  from updateOne_roster[OF assms this] show ?thesis
    by (simp add: reassign_ok[OF h])
next
  case False
  then have "fst (reassignStudentMentor c st studentId mentorId) = st"
    by (auto simp: reassignStudentMentor_def findById_def Let_def split: sum.splits option.splits)
  with assms show ?thesis by simp
qed

lemma createMentor_roster:
  assumes "findOne mi (mentorColl st) = Some m"
  shows "findOne mi (mentorColl (fst (createMentor c dflt st b))) = Some m"
  using assms
  by (auto simp: createMentor_def insertOne_def findOne_append split: sum.splits if_splits)

lemma createStudent_mentorColl: "mentorColl (fst (createStudent c dflt st b)) = mentorColl st"
  by (auto simp: createStudent_def split: sum.splits)

lemma query_store:
  "fst (getMentors st) = st" "fst (getStudents st) = st"
  "fst (getStudentsForMentor c st mentorId) = st" "fst (getPreviousMentor c st studentId) = st"
  by (auto simp: getMentors_def getStudents_def getStudentsForMentor_def getPreviousMentor_def
      split: sum.splits option.splits)

lemma handle_roster:
  assumes "findOne mi (mentorColl st) = Some m" and "students m = Some ids"
  shows "\<exists>m' ids'. findOne mi (mentorColl (fst (handle c st rq))) = Some m'
           \<and> students m' = Some ids' \<and> set ids \<subseteq> set ids'"
proof (cases rq)
  case (AssignStudent mentorId studentId)
  then show ?thesis using assign_roster[OF assms] by simp
next
  case (ReassignStudent studentId mentorId)
  then show ?thesis using reassign_roster[OF assms] by simp
next
  case (CreateMentor dflt b)
  then show ?thesis using createMentor_roster[OF assms(1)] assms(2) by simp
next
  case (CreateStudent dflt b)
  then show ?thesis using assms by (simp add: createStudent_mentorColl)
qed (use assms in \<open>simp_all add: query_store\<close>)

lemma run_roster:
  assumes "findOne mi (mentorColl st) = Some m" and "students m = Some ids" and "si \<in> set ids"
  shows "\<exists>m' ids'. findOne mi (mentorColl (run c st rqs)) = Some m'
           \<and> students m' = Some ids' \<and> si \<in> set ids'"
  using assms
proof (induction rqs arbitrary: st m ids)
  case Nil
  then show ?case by simp
next
  case (Cons rq rqs)
  from handle_roster[OF Cons.prems(1,2), of c rq] Cons.prems(3)
  obtain m1 ids1 where "findOne mi (mentorColl (fst (handle c st rq))) = Some m1"
      "students m1 = Some ids1" "si \<in> set ids1"
    by blast
  from Cons.IH[OF this] show ?case by simp
qed

text \<open>
  C4. \<open>reassignStudentMentor\<close> writes the student and the target mentor only. When the
  student's current mentor is another mentor than the target, that mentor's document
  is the same after the reassignment, so a roster that held the student's identifier
  still holds it while the student's \<^verbatim>\<open>mentor\<close> is the target: the roster is not
  consistent. No later request removes the identifier from the roster.
\<close>

theorem reassign_keeps_stale_reference:
  assumes "c studentId = Some si" and "findOne si (studentColl st) = Some s"
    and "mentor s = Some m1" and "findOne m1 (mentorColl st) = Some d1"
    and "students d1 = Some ids1" and "si \<in> set ids1"
    and "c mentorId = Some m2" and "findOne m2 (mentorColl st) = Some d2"
    and "reassignStudentMentor c st studentId mentorId = (st', r)"
  shows "(m1 \<noteq> m2 \<longrightarrow> findOne m1 (mentorColl st') = Some d1 \<and> \<not> roster_consistent st' m1)
         \<and> (\<forall>rqs. \<exists>d ids. findOne m1 (mentorColl (run c st' rqs)) = Some d
                \<and> students d = Some ids \<and> si \<in> set ids)"
proof -
  define s' where "s' = s\<lparr>previousMentor := (if mentor s \<noteq> None then mentor s else previousMentor s),
               mentor := Some m2\<rparr>"
  define d2' where "d2' = (case students d2 of None \<Rightarrow> d2
                            | Some xs \<Rightarrow> d2\<lparr>students := Some (xs @ [si])\<rparr>)"
  have ids: "doc_id s = si" "doc_id d2 = m2" "doc_id d2' = m2"
    using assms(2,8) by (simp_all add: findOne_doc_id d2'_def pushed_doc_id)
  have st': "st' = st\<lparr>studentColl := updateOne s' (studentColl st),
                      mentorColl := updateOne d2' (mentorColl st)\<rparr>"
    using reassign_ok[OF assms(1,2,7,8)] assms(9) by (simp add: s'_def d2'_def)
  have student: "findOne si (studentColl st') = Some s'" "mentor s' = Some m2"
    using st' ids assms(2) by (simp_all add: findOne_updateOne s'_def)
  have old: "findOne m1 (mentorColl st') = Some (if m1 = m2 then d2' else d1)"
    using st' ids assms(4,8) by (simp add: findOne_updateOne)
  have held: "\<exists>ids. students (if m1 = m2 then d2' else d1) = Some ids \<and> si \<in> set ids"
    using assms(4,5,6,8) by (auto simp: d2'_def)
  then obtain ids where "students (if m1 = m2 then d2' else d1) = Some ids" "si \<in> set ids"
    by blast
  from run_roster[OF old this]
  have forever: "\<forall>rqs. \<exists>d ids. findOne m1 (mentorColl (run c st' rqs)) = Some d
                \<and> students d = Some ids \<and> si \<in> set ids"
    by blast
  have "\<not> roster_consistent st' m1" if "m1 \<noteq> m2"
    using that old student assms(5,6)
    by (auto simp: roster_consistent_def list_all_iff intro!: bexI[of _ si])
  with old forever show ?thesis by simp
qed

theorem reassign_keeps_stale_reference_witness:
  "castObjectId S1 = Some 161 \<and> findOne 161 (studentColl store1) = Some (lin\<lparr>mentor := Some 17\<rparr>)
   \<and> mentor (lin\<lparr>mentor := Some 17\<rparr>) = Some 17
   \<and> findOne 17 (mentorColl store1) = Some (ada\<lparr>students := Some [161]\<rparr>)
   \<and> students (ada\<lparr>students := Some [161]\<rparr>) = Some [161] \<and> 161 \<in> set [161::nat]
   \<and> castObjectId M2 = Some 18 \<and> findOne 18 (mentorColl store1) = Some grace
   \<and> findOne 17 (mentorColl (fst (reassignStudentMentor castObjectId store1 S1 M2)))
        = Some (ada\<lparr>students := Some [161]\<rparr>)
   \<and> \<not> roster_consistent (fst (reassignStudentMentor castObjectId store1 S1 M2)) 17
   \<and> (\<forall>rqs. \<exists>d ids. findOne 17 (mentorColl (run castObjectId
            (fst (reassignStudentMentor castObjectId store1 S1 M2)) rqs)) = Some d
         \<and> students d = Some ids \<and> 161 \<in> set ids)"
proof -
  have h1: "castObjectId S1 = Some 161" and h7: "castObjectId M2 = Some 18"
    by (simp_all add: cast_examples)
  have h2: "findOne 161 (studentColl store1) = Some (lin\<lparr>mentor := Some 17\<rparr>)"
    and h4: "findOne 17 (mentorColl store1) = Some (ada\<lparr>students := Some [161]\<rparr>)"
    and h8: "findOne 18 (mentorColl store1) = Some grace"
    by (simp_all add: store1_lookups)
  have h3: "mentor (lin\<lparr>mentor := Some 17\<rparr>) = Some 17" by simp
  have h5: "students (ada\<lparr>students := Some [161]\<rparr>) = Some [161]" by simp
  have h6: "161 \<in> set [161::nat]" by simp
  show ?thesis
    using reassign_keeps_stale_reference[OF h1 h2 h3 h4 h5 h6 h7 h8 prod.collapse[symmetric]]
      h1 h2 h4 h7 h8
    by simp
qed

section \<open>Duplicates in a roster\<close>

text \<open>
  C9. \<open>reassignStudentMentor\<close> appends the student's identifier to the target mentor's
  \<^verbatim>\<open>students\<close> without looking at the array: the new array is the old one followed
  by the identifier. So when the array already holds the identifier (as it does when
  the target is the student's current mentor) the identifier occurs once more and the
  array has a duplicate, and repeating the request appends again.
\<close>

theorem reassign_appends_without_membership_check:
  assumes "c studentId = Some si" and "findOne si (studentColl st) = Some s"
    and "c mentorId = Some mi" and "findOne mi (mentorColl st) = Some m"
    and "students m = Some ids"
    and "reassignStudentMentor c st studentId mentorId = (st1, r1)"
    and "reassignStudentMentor c st1 studentId mentorId = (st2, r2)"
  shows "\<exists>m1 m2. findOne mi (mentorColl st1) = Some m1 \<and> students m1 = Some (ids @ [si])
           \<and> (si \<in> set ids \<longrightarrow> \<not> distinct (ids @ [si]))
           \<and> findOne mi (mentorColl st2) = Some m2 \<and> students m2 = Some (ids @ [si, si])
           \<and> \<not> distinct (ids @ [si, si])"
proof -
  define s1 where "s1 = s\<lparr>previousMentor := (if mentor s \<noteq> None then mentor s else previousMentor s),
               mentor := Some mi\<rparr>"
  define m1 where "m1 = m\<lparr>students := Some (ids @ [si])\<rparr>"
  have ids: "doc_id s = si" "doc_id m = mi"
    using assms(2,4) by (simp_all add: findOne_doc_id)
  have st1: "st1 = st\<lparr>studentColl := updateOne s1 (studentColl st),
                      mentorColl := updateOne m1 (mentorColl st)\<rparr>"
    using reassign_ok[OF assms(1-4)] assms(5,6) by (simp add: s1_def m1_def)
  have f1: "findOne si (studentColl st1) = Some s1" "findOne mi (mentorColl st1) = Some m1"
    using st1 ids assms(2,4) by (simp_all add: findOne_updateOne s1_def m1_def)
  define m2 where "m2 = m1\<lparr>students := Some (ids @ [si] @ [si])\<rparr>"
  have "mentorColl st2 = updateOne m2 (mentorColl st1)"
    using reassign_ok[OF assms(1) f1(1) assms(3) f1(2)] assms(7) by (auto simp: m2_def m1_def)
  then have f2: "findOne mi (mentorColl st2) = Some m2"
    using f1(2) ids by (simp add: findOne_updateOne m2_def m1_def)
  have "students m1 = Some (ids @ [si])" "students m2 = Some (ids @ [si, si])"
    by (simp_all add: m1_def m2_def)
  with f1(2) f2 show ?thesis
    by (intro exI[of _ m1] exI[of _ m2]) simp
qed

theorem reassign_appends_without_membership_check_witness:
  "castObjectId S1 = Some 161 \<and> findOne 161 (studentColl store1) = Some (lin\<lparr>mentor := Some 17\<rparr>)
   \<and> castObjectId M1 = Some 17 \<and> findOne 17 (mentorColl store1) = Some (ada\<lparr>students := Some [161]\<rparr>)
   \<and> students (ada\<lparr>students := Some [161]\<rparr>) = Some [161]
   \<and> (\<exists>m1 m2. findOne 17 (mentorColl (fst (reassignStudentMentor castObjectId store1 S1 M1))) = Some m1
        \<and> students m1 = Some [161, 161] \<and> \<not> distinct [161, 161 :: nat]
        \<and> findOne 17 (mentorColl (fst (reassignStudentMentor castObjectId
              (fst (reassignStudentMentor castObjectId store1 S1 M1)) S1 M1))) = Some m2
        \<and> students m2 = Some [161, 161, 161])"
proof -
  have h1: "castObjectId S1 = Some 161" and h3: "castObjectId M1 = Some 17"
    by (simp_all add: cast_examples)
  have h2: "findOne 161 (studentColl store1) = Some (lin\<lparr>mentor := Some 17\<rparr>)"
    and h4: "findOne 17 (mentorColl store1) = Some (ada\<lparr>students := Some [161]\<rparr>)"
    by (simp_all add: store1_lookups)
  have h5: "students (ada\<lparr>students := Some [161]\<rparr>) = Some [161]" by simp
  show ?thesis
    using reassign_appends_without_membership_check[OF h1 h2 h3 h4 h5
        prod.collapse[symmetric] prod.collapse[symmetric]] h1 h2 h3 h4
    by auto
qed

section \<open>What the two assignment operations write\<close>

lemma assign_writes:
  "fst (assignStudentToMentor c st mentorId studentId) = st \<or>
     (\<exists>s' m'. c studentId = Some (doc_id s') \<and> c mentorId = Some (doc_id m')
        \<and> fst (assignStudentToMentor c st mentorId studentId)
            = st\<lparr>studentColl := updateOne s' (studentColl st),
                 mentorColl := updateOne m' (mentorColl st)\<rparr>)"
proof (cases "\<exists>i m0 j s0. c mentorId = Some i \<and> findOne i (mentorColl st) = Some m0
                \<and> c studentId = Some j \<and> findOne j (studentColl st) = Some s0 \<and> mentor s0 = None")
  case True
  then obtain i m0 j s0 where h: "c mentorId = Some i" "findOne i (mentorColl st) = Some m0"
      "c studentId = Some j" "findOne j (studentColl st) = Some s0" "mentor s0 = None"
    by blast
  have "c studentId = Some (doc_id (s0\<lparr>mentor := Some i\<rparr>))"
    "c mentorId = Some (doc_id (case students m0 of None \<Rightarrow> m0
                                | Some ids \<Rightarrow> m0\<lparr>students := Some (ids @ [j])\<rparr>))"
    using h(1,3) findOne_doc_id[OF h(2)] findOne_doc_id[OF h(4)] by (simp_all add: pushed_doc_id)
  then show ?thesis
    unfolding assign_ok[OF h] fst_conv by blast
next
  case False
  then have "fst (assignStudentToMentor c st mentorId studentId) = st"
    by (auto simp: assignStudentToMentor_def findById_def Let_def split: sum.splits option.splits)
  then show ?thesis by simp
qed

lemma reassign_writes:
  "fst (reassignStudentMentor c st studentId mentorId) = st \<or>
     (\<exists>s' m'. c studentId = Some (doc_id s') \<and> c mentorId = Some (doc_id m')
        \<and> fst (reassignStudentMentor c st studentId mentorId)
            = st\<lparr>studentColl := updateOne s' (studentColl st),
                 mentorColl := updateOne m' (mentorColl st)\<rparr>)"
proof (cases "\<exists>j s0 i m0. c studentId = Some j \<and> findOne j (studentColl st) = Some s0
                \<and> c mentorId = Some i \<and> findOne i (mentorColl st) = Some m0")
  case True
  then obtain j s0 i m0 where h: "c studentId = Some j" "findOne j (studentColl st) = Some s0"
      "c mentorId = Some i" "findOne i (mentorColl st) = Some m0"
    by blast
  have "c studentId = Some (doc_id (s0\<lparr>previousMentor :=
            (if mentor s0 \<noteq> None then mentor s0 else previousMentor s0), mentor := Some i\<rparr>))"
    "c mentorId = Some (doc_id (case students m0 of None \<Rightarrow> m0
                                | Some ids \<Rightarrow> m0\<lparr>students := Some (ids @ [j])\<rparr>))"
    using h(1,3) findOne_doc_id[OF h(2)] findOne_doc_id[OF h(4)] by (simp_all add: pushed_doc_id)
  then show ?thesis
    unfolding reassign_ok[OF h] fst_conv by blast
next
  case False
  then have "fst (reassignStudentMentor c st studentId mentorId) = st"
    by (auto simp: reassignStudentMentor_def findById_def Let_def split: sum.splits option.splits)
  then show ?thesis by simp
qed

lemma updateOne_frame:
  assumes "p = Some (doc_id d)"
  shows "\<forall>i. p \<noteq> Some i \<longrightarrow> findOne i (updateOne d coll) = findOne i coll"
    and "filter (\<lambda>x. p \<noteq> Some (doc_id x)) (updateOne d coll) = filter (\<lambda>x. p \<noteq> Some (doc_id x)) coll"
  using assms updateOne_others[of d coll] by (auto simp: findOne_updateOne neq_commute)

text \<open>
  C10. \<open>assignStudentToMentor\<close> and \<open>reassignStudentMentor\<close> write at most the student
  and the mentor their parameters name. Every student with another identifier and
  every mentor with another identifier (the student's old mentor among them, when it is
  not the target) is the same document after the request, at the same place of its
  collection, and no document is added or removed.
\<close>

theorem assignment_operations_frame:
  assumes "op = assignStudentToMentor c st mentorId studentId
           \<or> op = reassignStudentMentor c st studentId mentorId"
  shows "(\<forall>i. c studentId \<noteq> Some i \<longrightarrow> findOne i (studentColl (fst op)) = findOne i (studentColl st))
       \<and> (\<forall>i. c mentorId \<noteq> Some i \<longrightarrow> findOne i (mentorColl (fst op)) = findOne i (mentorColl st))
       \<and> filter (\<lambda>d. c studentId \<noteq> Some (doc_id d)) (studentColl (fst op))
           = filter (\<lambda>d. c studentId \<noteq> Some (doc_id d)) (studentColl st)
       \<and> filter (\<lambda>d. c mentorId \<noteq> Some (doc_id d)) (mentorColl (fst op))
           = filter (\<lambda>d. c mentorId \<noteq> Some (doc_id d)) (mentorColl st)
       \<and> map doc_id (studentColl (fst op)) = map doc_id (studentColl st)
       \<and> map doc_id (mentorColl (fst op)) = map doc_id (mentorColl st)"
proof -
  have "fst op = st \<or>
     (\<exists>s' m'. c studentId = Some (doc_id s') \<and> c mentorId = Some (doc_id m')
        \<and> fst op = st\<lparr>studentColl := updateOne s' (studentColl st),
                       mentorColl := updateOne m' (mentorColl st)\<rparr>)"
    using assms assign_writes[of c st mentorId studentId] reassign_writes[of c st studentId mentorId]
    by auto
  then show ?thesis
  proof
    assume "fst op = st"
    then show ?thesis by simp
  next
    assume "\<exists>s' m'. c studentId = Some (doc_id s') \<and> c mentorId = Some (doc_id m')
        \<and> fst op = st\<lparr>studentColl := updateOne s' (studentColl st),
                       mentorColl := updateOne m' (mentorColl st)\<rparr>"
    then obtain s' m' where h: "c studentId = Some (doc_id s')" "c mentorId = Some (doc_id m')"
      "fst op = st\<lparr>studentColl := updateOne s' (studentColl st),
                   mentorColl := updateOne m' (mentorColl st)\<rparr>"
      by blast
    show ?thesis
      unfolding h(3)
      using updateOne_frame[OF h(1), of "studentColl st"] updateOne_frame[OF h(2), of "mentorColl st"]
      by (simp add: updateOne_ids)
  qed
qed

theorem assignment_operations_frame_witness:
  "castObjectId S1 = Some 161 \<and> castObjectId M2 = Some 18
   \<and> findOne 162 (studentColl (fst (reassignStudentMentor castObjectId store1 S1 M2))) = Some kim
   \<and> findOne 17 (mentorColl (fst (reassignStudentMentor castObjectId store1 S1 M2)))
        = Some (ada\<lparr>students := Some [161]\<rparr>)
   \<and> findOne 19 (mentorColl (fst (reassignStudentMentor castObjectId store1 S1 M2))) = Some edsger"
proof -
  have h: "reassignStudentMentor castObjectId store1 S1 M2 = assignStudentToMentor castObjectId store1 M2 S1
           \<or> reassignStudentMentor castObjectId store1 S1 M2 = reassignStudentMentor castObjectId store1 S1 M2"
    by simp
  show ?thesis
    using assignment_operations_frame[OF h]
    by (simp add: cast_examples store1_lookups)
qed

section \<open>Identifiers that do not resolve\<close>

text \<open>
  C5, as stated: an endpoint given an identifier that does not resolve answers 404 and
  leaves the store as it was. It fails for a parameter that is not the text of an
  ObjectId: the lookup rejects, the handler's \<^verbatim>\<open>catch\<close> branch answers 500.
\<close>

theorem unresolved_id_not_always_404_counterexample:
  "\<not> resolves castObjectId (mentorColl store0) ''abc''
   \<and> assignStudentToMentor castObjectId store0 ''abc'' S1
       = (store0, \<lparr>status = 500, body = BError ''Error assigning student to mentor''\<rparr>)"
  by (simp add: resolves_def findById_def assignStudentToMentor_def cast_examples)

text \<open>
  C5, amended. For each of the four endpoints that take identifiers: when every
  identifier given casts to an ObjectId and one of them refers to no document, the
  answer is 404 and the store is returned as it was; when an identifier does not cast,
  the answer is 500, and the store is returned as it was too. Both assignment
  handlers read both documents before they write.
\<close>

theorem unresolved_id_gives_404_without_write:
  "(c p \<noteq> None \<and> c q \<noteq> None
      \<and> (\<not> resolves c (mentorColl st) p \<or> \<not> resolves c (studentColl st) q) \<longrightarrow>
        assignStudentToMentor c st p q
          = (st, \<lparr>status = 404, body = BText ''Mentor or Student not found''\<rparr>)
        \<and> reassignStudentMentor c st q p
          = (st, \<lparr>status = 404, body = BText ''Student or Mentor not found''\<rparr>))
   \<and> (c p \<noteq> None \<and> \<not> resolves c (mentorColl st) p \<longrightarrow>
        getStudentsForMentor c st p = (st, \<lparr>status = 404, body = BText ''Mentor not found''\<rparr>))
   \<and> (c q \<noteq> None \<and> \<not> resolves c (studentColl st) q \<longrightarrow>
        getPreviousMentor c st q = (st, \<lparr>status = 404, body = BText ''Student not found''\<rparr>))
   \<and> (c p = None \<or> c q = None \<longrightarrow>
        assignStudentToMentor c st p q
          = (st, \<lparr>status = 500, body = BError ''Error assigning student to mentor''\<rparr>)
        \<and> reassignStudentMentor c st q p
          = (st, \<lparr>status = 500, body = BError ''Error updating student mentor''\<rparr>))
   \<and> (c p = None \<longrightarrow>
        getStudentsForMentor c st p
          = (st, \<lparr>status = 500, body = BError ''Error fetching students for mentor''\<rparr>))
   \<and> (c q = None \<longrightarrow>
        getPreviousMentor c st q
          = (st, \<lparr>status = 500, body = BError ''Error fetching previous mentor for student''\<rparr>))"
proof -
  have a: "assignStudentToMentor c st p q
          = (st, \<lparr>status = 404, body = BText ''Mentor or Student not found''\<rparr>)"
    if "c p \<noteq> None" "c q \<noteq> None" "\<not> resolves c (mentorColl st) p \<or> \<not> resolves c (studentColl st) q"
    using that
    by (auto simp: assignStudentToMentor_def resolves_def findById_def split: option.splits)
  have b: "reassignStudentMentor c st q p
          = (st, \<lparr>status = 404, body = BText ''Student or Mentor not found''\<rparr>)"
    if "c p \<noteq> None" "c q \<noteq> None" "\<not> resolves c (mentorColl st) p \<or> \<not> resolves c (studentColl st) q"
    using that
    by (auto simp: reassignStudentMentor_def resolves_def findById_def split: option.splits)
  have c: "getStudentsForMentor c st p = (st, \<lparr>status = 404, body = BText ''Mentor not found''\<rparr>)"
    if "c p \<noteq> None" "\<not> resolves c (mentorColl st) p"
    using that
    by (auto simp: getStudentsForMentor_def resolves_def findById_def split: option.splits)
  have d: "getPreviousMentor c st q = (st, \<lparr>status = 404, body = BText ''Student not found''\<rparr>)"
    if "c q \<noteq> None" "\<not> resolves c (studentColl st) q"
    using that
    by (auto simp: getPreviousMentor_def resolves_def findById_def split: option.splits)
  have e: "assignStudentToMentor c st p q
          = (st, \<lparr>status = 500, body = BError ''Error assigning student to mentor''\<rparr>)"
    if "c p = None \<or> c q = None"
    using that
    by (auto simp: assignStudentToMentor_def findById_def split: option.splits)
  have f: "reassignStudentMentor c st q p
          = (st, \<lparr>status = 500, body = BError ''Error updating student mentor''\<rparr>)"
    if "c p = None \<or> c q = None"
    using that
    by (auto simp: reassignStudentMentor_def findById_def split: option.splits)
  have g: "getStudentsForMentor c st p
          = (st, \<lparr>status = 500, body = BError ''Error fetching students for mentor''\<rparr>)"
    if "c p = None"
    using that by (simp add: getStudentsForMentor_def findById_def)
  have h: "getPreviousMentor c st q
          = (st, \<lparr>status = 500, body = BError ''Error fetching previous mentor for student''\<rparr>)"
    if "c q = None"
    using that by (simp add: getPreviousMentor_def findById_def)
  from a b c d e f g h show ?thesis by blast
qed

theorem unresolved_id_gives_404_without_write_witness:
  "castObjectId M1 = Some 17 \<and> castObjectId S2 = Some 162
   \<and> \<not> resolves castObjectId (mentorColl \<lparr>mentorColl = [], studentColl = [kim]\<rparr>) M1
   \<and> assignStudentToMentor castObjectId \<lparr>mentorColl = [], studentColl = [kim]\<rparr> M1 S2
       = (\<lparr>mentorColl = [], studentColl = [kim]\<rparr>,
          \<lparr>status = 404, body = BText ''Mentor or Student not found''\<rparr>)
   \<and> reassignStudentMentor castObjectId \<lparr>mentorColl = [], studentColl = [kim]\<rparr> S2 M1
       = (\<lparr>mentorColl = [], studentColl = [kim]\<rparr>,
          \<lparr>status = 404, body = BText ''Student or Mentor not found''\<rparr>)
   \<and> getStudentsForMentor castObjectId \<lparr>mentorColl = [], studentColl = [kim]\<rparr> M1
       = (\<lparr>mentorColl = [], studentColl = [kim]\<rparr>,
          \<lparr>status = 404, body = BText ''Mentor not found''\<rparr>)"
proof -
  have h: "castObjectId M1 = Some 17" "castObjectId S2 = Some 162"
    by (simp_all add: cast_examples)
  have r: "\<not> resolves castObjectId (mentorColl \<lparr>mentorColl = [], studentColl = [kim]\<rparr>) M1"
    by (simp add: resolves_def findById_def findOne_def h)
  show ?thesis
    using unresolved_id_gives_404_without_write[of castObjectId M1 S2
        "\<lparr>mentorColl = [], studentColl = [kim]\<rparr>"] h r
    by simp
qed

section \<open>The students of a mentor\<close>

lemma map_filter_append: "List.map_filter f (xs @ ys) = List.map_filter f xs @ List.map_filter f ys"
  by (simp add: List.map_filter_def)

lemma map_filter_all_found:
  "list_all (\<lambda>x. f x \<noteq> None) xs \<Longrightarrow> map Some (List.map_filter f xs) = map f xs"
  by (induction xs) (auto split: option.splits)

lemma students_query_found:
  assumes "c mentorId = Some mi" and "findOne mi (mentorColl st) = Some m"
  shows "getStudentsForMentor c st mentorId
           = (st, case students m of
                    None \<Rightarrow> \<lparr>status = 200, body = BNull\<rparr>
                  | Some ids \<Rightarrow> \<lparr>status = 200, body = BStudents (populate_students st ids)\<rparr>)"
  using assms by (cases "students m") (simp_all add: getStudentsForMentor_def findById_def)

lemma two_assignments_then_query:
  assumes c: "c mentorId = Some mi"
    and h: "findOne mi (mentorColl st) = Some m" "students m = Some ids"
      "c q1 = Some i1" "findOne i1 (studentColl st) = Some s1" "mentor s1 = None"
      "c q2 = Some i2" "findOne i2 (studentColl st) = Some s2" "mentor s2 = None"
      "i1 \<noteq> i2"
  shows "let st2 = fst (assignStudentToMentor c
                          (fst (assignStudentToMentor c st mentorId q1)) mentorId q2)
         in getStudentsForMentor c st2 mentorId
              = (st2, \<lparr>status = 200,
                   body = BStudents
                     (List.map_filter (\<lambda>i. findOne i (studentColl st2)) ids
                      @ [s1\<lparr>mentor := Some mi\<rparr>, s2\<lparr>mentor := Some mi\<rparr>])\<rparr>)"
proof -
  define st1 where "st1 = fst (assignStudentToMentor c st mentorId q1)"
  define st2 where "st2 = fst (assignStudentToMentor c st1 mentorId q2)"
  define m1 where "m1 = m\<lparr>students := Some (ids @ [i1])\<rparr>"
  define m2 where "m2 = m1\<lparr>students := Some (ids @ [i1] @ [i2])\<rparr>"
  have dids: "doc_id m = mi" "doc_id s1 = i1" "doc_id s2 = i2"
    using h(1,4,7) by (simp_all add: findOne_doc_id)
  have st1: "st1 = st\<lparr>studentColl := updateOne (s1\<lparr>mentor := Some mi\<rparr>) (studentColl st),
                      mentorColl := updateOne m1 (mentorColl st)\<rparr>"
    unfolding st1_def m1_def using h(2) by (simp add: assign_ok[OF c h(1) h(3,4,5)])
  have l1: "findOne mi (mentorColl st1) = Some m1"
    "findOne i1 (studentColl st1) = Some (s1\<lparr>mentor := Some mi\<rparr>)"
    "findOne i2 (studentColl st1) = Some s2"
    using st1 dids h(1,4,7,9) by (simp_all add: findOne_updateOne m1_def)
  have st2: "st2 = st1\<lparr>studentColl := updateOne (s2\<lparr>mentor := Some mi\<rparr>) (studentColl st1),
                       mentorColl := updateOne m2 (mentorColl st1)\<rparr>"
    unfolding st2_def m2_def by (simp add: assign_ok[OF c l1(1) h(6) l1(3) h(8)] m1_def)
  have l2: "findOne mi (mentorColl st2) = Some m2"
    "findOne i1 (studentColl st2) = Some (s1\<lparr>mentor := Some mi\<rparr>)"
    "findOne i2 (studentColl st2) = Some (s2\<lparr>mentor := Some mi\<rparr>)"
    using st2 dids l1 h(9) by (simp_all add: findOne_updateOne m2_def m1_def)
  have "populate_students st2 (ids @ [i1] @ [i2])
            = List.map_filter (\<lambda>i. findOne i (studentColl st2)) ids
              @ [s1\<lparr>mentor := Some mi\<rparr>, s2\<lparr>mentor := Some mi\<rparr>]"
    using l2(2,3) by (simp add: populate_students_def map_filter_append)
  with students_query_found[of c mentorId mi st2 m2, OF c l2(1)] show ?thesis
    unfolding st2_def st1_def by (simp add: Let_def m2_def)
qed

text \<open>
  C6, as stated: the students-for-mentor query answers 404 whenever the mentor id does
  not resolve. It fails for a parameter that is not the text of an ObjectId, where
  the answer is 500.
\<close>

theorem students_for_mentor_not_always_404_counterexample:
  "\<not> resolves castObjectId (mentorColl store1) ''abc''
   \<and> getStudentsForMentor castObjectId store1 ''abc''
       = (store1, \<lparr>status = 500, body = BError ''Error fetching students for mentor''\<rparr>)"
  by (simp add: resolves_def findById_def getStudentsForMentor_def cast_examples)

text \<open>
  C6, amended. When the mentor id casts to an ObjectId: if it refers to a Mentor whose
  \<^verbatim>\<open>students\<close> is an array, the query answers 200 with the Student documents the
  identifiers of the array refer to, in the array's order (documents, not identifiers;
  when every identifier refers to a student there is one document for each); if the
  mentor's \<^verbatim>\<open>students\<close> is \<^verbatim>\<open>null\<close> it answers 200 with \<^verbatim>\<open>null\<close>; and if the id
  refers to no Mentor it answers 404. After two students without a mentor are assigned
  to the same mentor, the answer ends with the documents of both, each with \<^verbatim>\<open>mentor\<close>
  set to that mentor. When the mentor id does not cast, the answer is 500.
\<close>

theorem students_for_mentor_populates:
  "(\<forall>mi. c mentorId = Some mi \<longrightarrow>
      (\<forall>m ids. findOne mi (mentorColl st) = Some m \<and> students m = Some ids \<longrightarrow>
            getStudentsForMentor c st mentorId
              = (st, \<lparr>status = 200, body = BStudents (populate_students st ids)\<rparr>)
            \<and> populate_students st ids
              = List.map_filter (\<lambda>i. findOne i (studentColl st)) ids
            \<and> (list_all (\<lambda>i. findOne i (studentColl st) \<noteq> None) ids \<longrightarrow>
                 map Some (populate_students st ids)
                   = map (\<lambda>i. findOne i (studentColl st)) ids))
       \<and> (\<forall>m. findOne mi (mentorColl st) = Some m \<and> students m = None \<longrightarrow>
            getStudentsForMentor c st mentorId = (st, \<lparr>status = 200, body = BNull\<rparr>))
       \<and> (findOne mi (mentorColl st) = None \<longrightarrow>
            getStudentsForMentor c st mentorId
              = (st, \<lparr>status = 404, body = BText ''Mentor not found''\<rparr>))
       \<and> (\<forall>m ids q1 i1 s1 q2 i2 s2.
            findOne mi (mentorColl st) = Some m \<and> students m = Some ids
            \<and> c q1 = Some i1 \<and> findOne i1 (studentColl st) = Some s1 \<and> mentor s1 = None
            \<and> c q2 = Some i2 \<and> findOne i2 (studentColl st) = Some s2 \<and> mentor s2 = None
            \<and> i1 \<noteq> i2 \<longrightarrow>
            (let st2 = fst (assignStudentToMentor c
                              (fst (assignStudentToMentor c st mentorId q1)) mentorId q2)
             in getStudentsForMentor c st2 mentorId
                  = (st2, \<lparr>status = 200,
                       body = BStudents
                         (List.map_filter (\<lambda>i. findOne i (studentColl st2)) ids
                          @ [s1\<lparr>mentor := Some mi\<rparr>, s2\<lparr>mentor := Some mi\<rparr>])\<rparr>))))
   \<and> (c mentorId = None \<longrightarrow>
        getStudentsForMentor c st mentorId
          = (st, \<lparr>status = 500, body = BError ''Error fetching students for mentor''\<rparr>))"
proof -
  have expand: "list_all (\<lambda>i. findOne i (studentColl st) \<noteq> None) ids \<longrightarrow>
                 map Some (populate_students st ids)
                   = map (\<lambda>i. findOne i (studentColl st)) ids" for ids
    by (simp add: populate_students_def map_filter_all_found)
  have missing: "getStudentsForMentor c st mentorId
              = (st, \<lparr>status = 404, body = BText ''Mentor not found''\<rparr>)"
    if "c mentorId = Some mi" "findOne mi (mentorColl st) = None" for mi
    using that by (simp add: getStudentsForMentor_def findById_def)
  have malformed: "getStudentsForMentor c st mentorId
          = (st, \<lparr>status = 500, body = BError ''Error fetching students for mentor''\<rparr>)"
    if "c mentorId = None"
    using that by (simp add: getStudentsForMentor_def findById_def)
  have found: "getStudentsForMentor c st mentorId
              = (st, \<lparr>status = 200, body = BStudents (populate_students st ids)\<rparr>)"
    if "c mentorId = Some mi" "findOne mi (mentorColl st) = Some m" "students m = Some ids"
    for mi m ids
    using students_query_found[of c mentorId mi st m, OF that(1,2)] that(3) by simp
  have null: "getStudentsForMentor c st mentorId = (st, \<lparr>status = 200, body = BNull\<rparr>)"
    if "c mentorId = Some mi" "findOne mi (mentorColl st) = Some m" "students m = None"
    for mi m
    using students_query_found[of c mentorId mi st m, OF that(1,2)] that(3) by simp
  show ?thesis
    using found null expand missing malformed two_assignments_then_query[of c mentorId _ st]
    by (simp add: populate_students_def)
qed

theorem students_for_mentor_populates_witness:
  "castObjectId M1 = Some 17
   \<and> findOne 17 (mentorColl store0) = Some ada \<and> students ada = Some []
   \<and> castObjectId S1 = Some 161 \<and> findOne 161 (studentColl store0) = Some lin \<and> mentor lin = None
   \<and> castObjectId S2 = Some 162 \<and> findOne 162 (studentColl store0) = Some kim \<and> mentor kim = None
   \<and> getStudentsForMentor castObjectId store0 M1 = (store0, \<lparr>status = 200, body = BStudents []\<rparr>)
   \<and> snd (getStudentsForMentor castObjectId
        (fst (assignStudentToMentor castObjectId
               (fst (assignStudentToMentor castObjectId store0 M1 S1)) M1 S2)) M1)
      = \<lparr>status = 200,
          body = BStudents [lin\<lparr>mentor := Some 17\<rparr>, kim\<lparr>mentor := Some 17\<rparr>]\<rparr>
   \<and> getStudentsForMentor castObjectId \<lparr>mentorColl = [], studentColl = []\<rparr> M1
      = (\<lparr>mentorColl = [], studentColl = []\<rparr>, \<lparr>status = 404, body = BText ''Mentor not found''\<rparr>)"
proof -
  have h: "castObjectId M1 = Some 17" "castObjectId S1 = Some 161" "castObjectId S2 = Some 162"
    by (simp_all add: cast_examples)
  have l: "findOne 17 (mentorColl store0) = Some ada" "findOne 161 (studentColl store0) = Some lin"
    "findOne 162 (studentColl store0) = Some kim"
    by (simp_all add: store0_lookups)
  have u: "mentor lin = None" "mentor kim = None" "students ada = Some []"
    by (simp_all add: lin_def kim_def ada_def)
  have e: "findOne 17 (mentorColl \<lparr>mentorColl = [], studentColl = []\<rparr>) = None"
    by (simp add: findOne_def)
  note at_store0 = students_for_mentor_populates[of castObjectId M1 store0,
      THEN conjunct1, rule_format, OF h(1)]
  note at_empty = students_for_mentor_populates[of castObjectId M1
      "\<lparr>mentorColl = [], studentColl = []\<rparr>", THEN conjunct1, rule_format, OF h(1)]
  have one: "getStudentsForMentor castObjectId store0 M1
               = (store0, \<lparr>status = 200, body = BStudents []\<rparr>)"
    using at_store0[THEN conjunct1, rule_format, of ada "[]"] l(1) u(3)
    by (simp add: populate_students_def)
  have two: "snd (getStudentsForMentor castObjectId
        (fst (assignStudentToMentor castObjectId
               (fst (assignStudentToMentor castObjectId store0 M1 S1)) M1 S2)) M1)
      = \<lparr>status = 200,
          body = BStudents [lin\<lparr>mentor := Some 17\<rparr>, kim\<lparr>mentor := Some 17\<rparr>]\<rparr>"
    using at_store0[THEN conjunct2, THEN conjunct2, THEN conjunct2, rule_format,
        of ada "[]" S1 161 lin S2 162 kim] h l u
    by (simp add: Let_def)
  have none: "getStudentsForMentor castObjectId \<lparr>mentorColl = [], studentColl = []\<rparr> M1
      = (\<lparr>mentorColl = [], studentColl = []\<rparr>, \<lparr>status = 404, body = BText ''Mentor not found''\<rparr>)"
    using at_empty[THEN conjunct2, THEN conjunct2, THEN conjunct1] e by simp
  show ?thesis
    using h l u one two none by simp
qed

section \<open>Creation\<close>



lemma createStudent_201:
  assumes "status (snd (createStudent c dflt st b)) = 201"
  shows "\<exists>d. createStudent c dflt st b
               = (st\<lparr>studentColl := studentColl st @ [d]\<rparr>, \<lparr>status = 201, body = BStudent d\<rparr>)
           \<and> newStudent c dflt b = Inr d \<and> findOne (doc_id d) (studentColl st) = None"
  using assms
  by (auto simp: createStudent_def insertOne_def split: sum.splits if_splits)



lemma newStudent_fields:
  assumes "newStudent c dflt b = Inr d"
  shows "name d = body_name b"
    and "newId c dflt b = Inr (doc_id d)"
    and "mentor d = (case body_mentor b of None \<Rightarrow> None | Some x \<Rightarrow> c x)"
    and "previousMentor d = (case body_previousMentor b of None \<Rightarrow> None | Some x \<Rightarrow> c x)"
  using assms
  by (auto simp: newStudent_def castOptional_def split: sum.splits option.splits)




section \<open>The previous mentor\<close>

lemma createMentor_studentColl: "studentColl (fst (createMentor c dflt st b)) = studentColl st"
  by (auto simp: createMentor_def split: sum.splits)

lemma createStudent_keeps:
  assumes "findOne si (studentColl st) = Some s"
  shows "findOne si (studentColl (fst (createStudent c dflt st b))) = Some s"
  using assms
  by (auto simp: createStudent_def insertOne_def findOne_append split: sum.splits if_splits)

lemma assign_previousMentor:
  assumes "findOne si (studentColl st) = Some s"
  shows "\<exists>s'. findOne si (studentColl (fst (assignStudentToMentor c st mentorId studentId))) = Some s'
           \<and> previousMentor s' = previousMentor s"
proof (cases "\<exists>i m0 j s0. c mentorId = Some i \<and> findOne i (mentorColl st) = Some m0
                \<and> c studentId = Some j \<and> findOne j (studentColl st) = Some s0 \<and> mentor s0 = None")
  case True
  then obtain i m0 j s0 where h: "c mentorId = Some i" "findOne i (mentorColl st) = Some m0"
      "c studentId = Some j" "findOne j (studentColl st) = Some s0" "mentor s0 = None"
    by blast
  show ?thesis
    using assms h(4) findOne_doc_id[OF h(4)]
    by (auto simp: assign_ok[OF h] findOne_updateOne)
next
  case False
  then have "fst (assignStudentToMentor c st mentorId studentId) = st"
    by (auto simp: assignStudentToMentor_def findById_def Let_def split: sum.splits option.splits)
  with assms show ?thesis by simp
qed

lemma reassign_other_student:
  assumes "findOne si (studentColl st) = Some s" and "c studentId \<noteq> Some si"
  shows "findOne si (studentColl (fst (reassignStudentMentor c st studentId mentorId))) = Some s"
  using reassign_writes[of c st studentId mentorId] assms
  by (auto simp: findOne_updateOne)

lemma handle_previousMentor:
  assumes "findOne si (studentColl st) = Some s"
    and "no_reassignment_of c si [rq]"
  shows "\<exists>s'. findOne si (studentColl (fst (handle c st rq))) = Some s'
           \<and> previousMentor s' = previousMentor s"
proof (cases rq)
  case (AssignStudent mentorId studentId)
  then show ?thesis using assign_previousMentor[OF assms(1)] by simp
next
  case (ReassignStudent studentId mentorId)
  then have "c studentId \<noteq> Some si" using assms(2) by (simp add: no_reassignment_of_def)
  from reassign_other_student[of si st s c studentId mentorId, OF assms(1) this] ReassignStudent
  show ?thesis by simp
next
  case (CreateMentor dflt b)
  then show ?thesis using assms(1) by (simp add: createMentor_studentColl)
next
  case (CreateStudent dflt b)
  then show ?thesis using createStudent_keeps[OF assms(1)] by simp
qed (use assms(1) in \<open>simp_all add: query_store\<close>)

lemma run_previousMentor:
  assumes "findOne si (studentColl st) = Some s" and "no_reassignment_of c si rqs"
  shows "\<exists>s'. findOne si (studentColl (run c st rqs)) = Some s'
           \<and> previousMentor s' = previousMentor s"
  using assms
proof (induction rqs arbitrary: st s)
  case Nil
  then show ?case by simp
next
  case (Cons rq rqs)
  have one: "no_reassignment_of c si [rq]" and rest: "no_reassignment_of c si rqs"
    using Cons.prems(2) by (simp_all add: no_reassignment_of_def)
  from handle_previousMentor[OF Cons.prems(1) one]
  obtain s1 where s1: "findOne si (studentColl (fst (handle c st rq))) = Some s1"
      "previousMentor s1 = previousMentor s"
    by blast
  from Cons.IH[OF s1(1) rest] s1(2) show ?case by simp
qed

text \<open>
  C7, as stated: for a student that was never reassigned the previous-mentor query
  answers \<^verbatim>\<open>null\<close>. It fails for a student created with \<^verbatim>\<open>previousMentor\<close> in the
  request body: no reassignment was ever made, and the query answers the Mentor the
  body named.
\<close>

theorem previous_mentor_without_reassignment_counterexample:
  "findOne 163 (studentColl store0) = None
   \<and> run castObjectId store0 [CreateStudent (Inl ''TypeError'') pat_previous]
       = store0\<lparr>studentColl := [lin, kim,
            \<lparr>doc_id = 163, name = Some ''Pat'', mentor = None, previousMentor = Some 18\<rparr>]\<rparr>
   \<and> no_reassignment_of castObjectId 163 [CreateStudent (Inl ''TypeError'') pat_previous]
   \<and> getPreviousMentor castObjectId
        (run castObjectId store0 [CreateStudent (Inl ''TypeError'') pat_previous]) S3
       = (run castObjectId store0 [CreateStudent (Inl ''TypeError'') pat_previous],
          \<lparr>status = 200, body = BMentorOrNull (Some grace)\<rparr>)"
proof -
  have created: "run castObjectId store0 [CreateStudent (Inl ''TypeError'') pat_previous]
       = store0\<lparr>studentColl := [lin, kim,
            \<lparr>doc_id = 163, name = Some ''Pat'', mentor = None, previousMentor = Some 18\<rparr>]\<rparr>"
    by (simp add: createStudent_def newStudent_def newId_def castOptional_def insertOne_def
        findOne_def pat_previous_def cast_examples store0_def lin_def kim_def)
  have "getPreviousMentor castObjectId (store0\<lparr>studentColl := [lin, kim,
            \<lparr>doc_id = 163, name = Some ''Pat'', mentor = None, previousMentor = Some 18\<rparr>]\<rparr>) S3
       = (store0\<lparr>studentColl := [lin, kim,
            \<lparr>doc_id = 163, name = Some ''Pat'', mentor = None, previousMentor = Some 18\<rparr>]\<rparr>,
          \<lparr>status = 200, body = BMentorOrNull (Some grace)\<rparr>)"
    by (simp add: getPreviousMentor_def findById_def populate_previousMentor_def findOne_def
        cast_examples store0_def ada_def grace_def edsger_def lin_def kim_def)
  with created show ?thesis
    by (simp add: no_reassignment_of_def findOne_def store0_def lin_def kim_def)
qed

text \<open>
  C7, amended. When the student id resolves, the previous-mentor query answers 200 with
  the Mentor document the student's \<^verbatim>\<open>previousMentor\<close> refers to, and with \<^verbatim>\<open>null\<close>
  when \<^verbatim>\<open>previousMentor\<close> is unset or refers to no Mentor. It answers 404 only for a
  student id that does not resolve. A student whose \<^verbatim>\<open>previousMentor\<close> is unset, as it
  is for one created from a body that gives no \<^verbatim>\<open>previousMentor\<close>, keeps it unset
  through every sequence of requests that does not reassign that student, so the
  query still answers 200 with \<^verbatim>\<open>null\<close> after them.
\<close>

theorem previous_mentor_query:
  "(\<forall>si s. c studentId = Some si \<and> findOne si (studentColl st) = Some s \<longrightarrow>
       getPreviousMentor c st studentId
         = (st, \<lparr>status = 200,
                 body = BMentorOrNull (case previousMentor s of
                                         None \<Rightarrow> None
                                       | Some p \<Rightarrow> findOne p (mentorColl st))\<rparr>))
   \<and> (status (snd (getPreviousMentor c st studentId)) = 404 \<longrightarrow>
        \<not> resolves c (studentColl st) studentId)
   \<and> (\<forall>si s rqs. c studentId = Some si \<and> findOne si (studentColl st) = Some s
          \<and> previousMentor s = None \<and> no_reassignment_of c si rqs \<longrightarrow>
        getPreviousMentor c (run c st rqs) studentId
          = (run c st rqs, \<lparr>status = 200, body = BMentorOrNull None\<rparr>))
   \<and> (\<forall>dflt b d rqs. status (snd (createStudent c dflt st b)) = 201
          \<and> body (snd (createStudent c dflt st b)) = BStudent d
          \<and> body_previousMentor b = None
          \<and> c studentId = Some (doc_id d) \<and> no_reassignment_of c (doc_id d) rqs \<longrightarrow>
        getPreviousMentor c (run c (fst (createStudent c dflt st b)) rqs) studentId
          = (run c (fst (createStudent c dflt st b)) rqs,
             \<lparr>status = 200, body = BMentorOrNull None\<rparr>))"
proof -
  have found: "getPreviousMentor c st' studentId
         = (st', \<lparr>status = 200,
                 body = BMentorOrNull (case previousMentor s of
                                         None \<Rightarrow> None
                                       | Some p \<Rightarrow> findOne p (mentorColl st'))\<rparr>)"
    if "c studentId = Some si" "findOne si (studentColl st') = Some s" for si s st'
    using that
    by (simp add: getPreviousMentor_def findById_def populate_previousMentor_def)
  have only: "\<not> resolves c (studentColl st) studentId"
    if "status (snd (getPreviousMentor c st studentId)) = 404"
    using that
    by (auto simp: getPreviousMentor_def resolves_def split: sum.splits option.splits)
  have later: "getPreviousMentor c (run c st' rqs) studentId
          = (run c st' rqs, \<lparr>status = 200, body = BMentorOrNull None\<rparr>)"
    if h: "c studentId = Some si" "findOne si (studentColl st') = Some s"
      "previousMentor s = None" "no_reassignment_of c si rqs" for si s rqs st'
  proof -
    from run_previousMentor[OF h(2,4)] h(3)
    obtain s' where "findOne si (studentColl (run c st' rqs)) = Some s'" "previousMentor s' = None"
      by auto
    from found[OF h(1) this(1)] this(2) show ?thesis by simp
  qed
  have fresh: "getPreviousMentor c (run c (fst (createStudent c dflt st b)) rqs) studentId
          = (run c (fst (createStudent c dflt st b)) rqs,
             \<lparr>status = 200, body = BMentorOrNull None\<rparr>)"
    if h: "status (snd (createStudent c dflt st b)) = 201"
      "body (snd (createStudent c dflt st b)) = BStudent d"
      "body_previousMentor b = None"
      "c studentId = Some (doc_id d)" "no_reassignment_of c (doc_id d) rqs" for dflt b d rqs
  proof -
    from createStudent_201[OF h(1)] obtain d' where d': "createStudent c dflt st b
               = (st\<lparr>studentColl := studentColl st @ [d']\<rparr>, \<lparr>status = 201, body = BStudent d'\<rparr>)"
      "newStudent c dflt b = Inr d'" "findOne (doc_id d') (studentColl st) = None"
      by blast
    have same: "d' = d" using d'(1) h(2) by simp
    have stored: "findOne (doc_id d) (studentColl (fst (createStudent c dflt st b))) = Some d"
      using d'(1,3) same by (simp add: findOne_append)
    have unset: "previousMentor d = None"
      using newStudent_fields(4)[OF d'(2)] same h(3) by simp
    from later[OF h(4) stored unset h(5)] show ?thesis .
  qed
  from found[where st' = st] only later[where st' = st] fresh show ?thesis by blast
qed

theorem previous_mentor_query_witness:
  "castObjectId S1 = Some 161
   \<and> findOne 161 (studentColl store0) = Some lin \<and> previousMentor lin = None
   \<and> no_reassignment_of castObjectId 161 [AssignStudent M1 S1, ReassignStudent S2 M2]
   \<and> snd (getPreviousMentor castObjectId store0 S1) = \<lparr>status = 200, body = BMentorOrNull None\<rparr>
   \<and> snd (getPreviousMentor castObjectId
            (run castObjectId store0 [AssignStudent M1 S1, ReassignStudent S2 M2]) S1)
       = \<lparr>status = 200, body = BMentorOrNull None\<rparr>
   \<and> snd (getPreviousMentor castObjectId
            (fst (reassignStudentMentor castObjectId store1 S1 M2)) S1)
       = \<lparr>status = 200, body = BMentorOrNull (Some (ada\<lparr>students := Some [161]\<rparr>))\<rparr>
   \<and> snd (createStudent castObjectId (Inl ''TypeError'') store0 pat_plain)
       = \<lparr>status = 201,
          body = BStudent \<lparr>doc_id = 163, name = Some ''Pat'', mentor = None,
                           previousMentor = None\<rparr>\<rparr>
   \<and> snd (getPreviousMentor castObjectId
            (run castObjectId (fst (createStudent castObjectId (Inl ''TypeError'') store0 pat_plain))
               [AssignStudent M1 S3]) S3)
       = \<lparr>status = 200, body = BMentorOrNull None\<rparr>"
proof -
  have cr: "snd (createStudent castObjectId (Inl ''TypeError'') store0 pat_plain)
       = \<lparr>status = 201,
          body = BStudent \<lparr>doc_id = 163, name = Some ''Pat'', mentor = None,
                           previousMentor = None\<rparr>\<rparr>"
    by (simp add: createStudent_def newStudent_def newId_def castOptional_def insertOne_def
        findOne_def pat_plain_def cast_examples store0_def lin_def kim_def)
  have d: "snd (getPreviousMentor castObjectId
            (run castObjectId (fst (createStudent castObjectId (Inl ''TypeError'') store0 pat_plain))
               [AssignStudent M1 S3]) S3)
       = \<lparr>status = 200, body = BMentorOrNull None\<rparr>"
    using previous_mentor_query[of castObjectId S3 store0, THEN conjunct2, THEN conjunct2,
        THEN conjunct2, rule_format, of "Inl ''TypeError''" pat_plain
        "\<lparr>doc_id = 163, name = Some ''Pat'', mentor = None, previousMentor = None\<rparr>"
        "[AssignStudent M1 S3]"] cr
    by (simp add: pat_plain_def cast_examples no_reassignment_of_def)
  have h: "castObjectId S1 = Some 161" "castObjectId S2 = Some 162" "castObjectId M2 = Some 18"
    by (simp_all add: cast_examples)
  have l: "findOne 161 (studentColl store0) = Some lin" "previousMentor lin = None"
    by (simp_all add: store0_lookups lin_def)
  have n: "no_reassignment_of castObjectId 161 [AssignStudent M1 S1, ReassignStudent S2 M2]"
    by (simp add: no_reassignment_of_def h)
  note q0 = previous_mentor_query[of castObjectId S1 store0]
  have a: "snd (getPreviousMentor castObjectId store0 S1) = \<lparr>status = 200, body = BMentorOrNull None\<rparr>"
    using q0[THEN conjunct1, rule_format, of 161 lin] h l by simp
  have b: "snd (getPreviousMentor castObjectId
            (run castObjectId store0 [AssignStudent M1 S1, ReassignStudent S2 M2]) S1)
       = \<lparr>status = 200, body = BMentorOrNull None\<rparr>"
    using q0[THEN conjunct2, THEN conjunct2, THEN conjunct1, rule_format,
        of 161 lin "[AssignStudent M1 S1, ReassignStudent S2 M2]"] h l n
    by simp
  define st2 where "st2 = fst (reassignStudentMentor castObjectId store1 S1 M2)"
  have st2: "st2 = store1\<lparr>studentColl := updateOne (lin\<lparr>mentor := Some 18, previousMentor := Some 17\<rparr>)
                                (studentColl store1),
                        mentorColl := updateOne (grace\<lparr>students := Some [161]\<rparr>) (mentorColl store1)\<rparr>"
    unfolding st2_def
    by (simp add: reassign_ok[OF h(1) store1_lookups(4) h(3) store1_lookups(2)] grace_def lin_def)
  have f: "findOne 161 (studentColl st2) = Some (lin\<lparr>mentor := Some 18, previousMentor := Some 17\<rparr>)"
    "findOne 17 (mentorColl st2) = Some (ada\<lparr>students := Some [161]\<rparr>)"
    unfolding st2 by (simp_all add: findOne_updateOne store1_lookups lin_def grace_def)
  have c: "snd (getPreviousMentor castObjectId st2 S1)
       = \<lparr>status = 200, body = BMentorOrNull (Some (ada\<lparr>students := Some [161]\<rparr>))\<rparr>"
    using previous_mentor_query[of castObjectId S1 st2, THEN conjunct1, rule_format,
        of 161 "lin\<lparr>mentor := Some 18, previousMentor := Some 17\<rparr>"] h f
    by simp
  show ?thesis
    using h(1) l n a b c cr d unfolding st2_def by simp
qed

end
